theory Spec2Isabelle
  imports Main "HOL-Library.Word"
begin

section \<open>Python values, exceptions and observable events\<close>

text \<open>
  The pipeline of \<^verbatim>\<open>ETL_PubChem.py\<close> is dynamically typed: the body of the HTTP response
  is whatever \<^verbatim>\<open>response.json()\<close> returns, and the code inspects it with \<^verbatim>\<open>in\<close>,
  subscripts, \<^verbatim>\<open>.get\<close> and a \<^verbatim>\<open>for\<close> loop. The values are therefore modelled as one
  datatype of Python objects. A \<^verbatim>\<open>dict\<close> is an association list in insertion order
  whose keys are strings (as in every JSON object) and are looked up with \<open>map_of\<close>;
  a \<^verbatim>\<open>float\<close> is its IEEE-754 binary64 bit pattern.
\<close>

datatype pyval =
    PNone
  | PBool bool
  | PInt int
  | PFloat "64 word"
  | PStr string
  | PList "pyval list"
  | PDict "(string \<times> pyval) list"

text \<open>An f-string is kept as its pieces: the literal text and the interpolated values.\<close>

datatype frag = Lit string | Val pyval

text \<open>
  The exceptions that can travel through the program. \<open>ValueError\<close> is the only one the
  program raises itself; \<open>TypeError\<close>, \<open>AttributeError\<close>, \<open>KeyError\<close>, \<open>IndexError\<close> and
  \<open>UnboundLocalError\<close> come from the interpreter; the others come from the libraries
  (\<open>JSONDecodeError\<close> from \<^verbatim>\<open>response.json()\<close>, \<open>RequestException\<close> from
  \<^verbatim>\<open>requests.get\<close>, \<open>PyMongoError\<close> and its subclass \<open>ConnectionFailure\<close> from pymongo,
  \<open>OtherException\<close> for any other subclass of \<^verbatim>\<open>Exception\<close>).
\<close>

datatype exn =
    ValueError "frag list"
  | TypeError
  | AttributeError
  | KeyError
  | IndexError
  | UnboundLocalError
  | JSONDecodeError
  | RequestException
  | PyMongoError
  | ConnectionFailure
  | OtherException

text \<open>The \<^verbatim>\<open>isinstance\<close> tests that the \<^verbatim>\<open>except\<close> clauses perform.\<close>

fun is_ValueError :: "exn \<Rightarrow> bool" where
  "is_ValueError (ValueError m) = True"
| "is_ValueError JSONDecodeError = True"
| "is_ValueError e = False"

fun is_RequestException :: "exn \<Rightarrow> bool" where
  "is_RequestException RequestException = True"
| "is_RequestException JSONDecodeError = True"
| "is_RequestException e = False"

fun is_PyMongoError :: "exn \<Rightarrow> bool" where
  "is_PyMongoError PyMongoError = True"
| "is_PyMongoError ConnectionFailure = True"
| "is_PyMongoError e = False"

datatype level = DEBUG | INFO | ERROR | CRITICAL

text \<open>The identifier pymongo reports in \<^verbatim>\<open>result.inserted_id\<close>: a bson ObjectId, by its bytes.\<close>

datatype object_id = ObjectId string

text \<open>
  What a run does to the outside world, in order: the HTTP request, the calls of the
  logger, what is printed, and the calls on the MongoDB client.
\<close>

datatype event =
    HttpGet string
  | LogMsg level "frag list"
  | LogExn level string exn
  | Pprint pyval
  | Print string pyval
  | PrintId string object_id
  | Connect string
  | InsertOne string string pyval
  | Close

section \<open>The operations of Python the program uses\<close>

text \<open>Truth value testing (\<^verbatim>\<open>not x\<close>, \<^verbatim>\<open>if x\<close>).\<close>

fun truthy :: "pyval \<Rightarrow> bool" where
  "truthy PNone = False"
| "truthy (PBool b) = b"
| "truthy (PInt i) = (i \<noteq> 0)"
| "truthy (PFloat w) = (w \<noteq> 0 \<and> w \<noteq> 0x8000000000000000)"
| "truthy (PStr s) = (s \<noteq> [])"
| "truthy (PList xs) = (xs \<noteq> [])"
| "truthy (PDict kvs) = (kvs \<noteq> [])"

text \<open>\<^verbatim>\<open>isinstance(x, str)\<close>, and the text of a \<^verbatim>\<open>str\<close>.\<close>

fun isinstance_str :: "pyval \<Rightarrow> bool" where
  "isinstance_str (PStr s) = True"
| "isinstance_str v = False"

fun str_text :: "pyval \<Rightarrow> string" where
  "str_text (PStr s) = s"
| "str_text v = []"

fun starts_with :: "string \<Rightarrow> string \<Rightarrow> bool" where
  "starts_with [] s = True"
| "starts_with (c # cs) [] = False"
| "starts_with (c # cs) (d # ds) = (c = d \<and> starts_with cs ds)"

fun substring_of :: "string \<Rightarrow> string \<Rightarrow> bool" where
  "substring_of k [] = (k = [])"
| "substring_of k (d # ds) = (starts_with k (d # ds) \<or> substring_of k ds)"

text \<open>
  \<^verbatim>\<open>k in x\<close> for a \<^verbatim>\<open>str\<close> \<open>k\<close>: key membership in a dict, element membership in a list,
  substring test in a str, \<open>TypeError\<close> for every other object.
\<close>

fun py_in :: "string \<Rightarrow> pyval \<Rightarrow> exn + bool" where
  "py_in k (PDict kvs) = Inr (map_of kvs k \<noteq> None)"
| "py_in k (PList xs) = Inr (List.member xs (PStr k))"
| "py_in k (PStr s) = Inr (substring_of k s)"
| "py_in k v = Inl TypeError"

text \<open>
  \<^verbatim>\<open>x[k]\<close> for a \<^verbatim>\<open>str\<close> \<open>k\<close>: \<open>KeyError\<close> on a dict without the key, \<open>TypeError\<close> on every
  other object (a list or str wants an integer index, the rest is not subscriptable).
\<close>

fun py_getitem :: "pyval \<Rightarrow> string \<Rightarrow> exn + pyval" where
  "py_getitem (PDict kvs) k = (case map_of kvs k of None \<Rightarrow> Inl KeyError | Some v \<Rightarrow> Inr v)"
| "py_getitem v k = Inl TypeError"

text \<open>
  \<^verbatim>\<open>x[0]\<close>: the first element of a list, the first character of a str, \<open>IndexError\<close> when
  they are empty, \<open>KeyError\<close> on a dict (its keys are strings), \<open>TypeError\<close> otherwise.
\<close>

fun py_getitem0 :: "pyval \<Rightarrow> exn + pyval" where
  "py_getitem0 (PList []) = Inl IndexError"
| "py_getitem0 (PList (x # xs)) = Inr x"
| "py_getitem0 (PStr []) = Inl IndexError"
| "py_getitem0 (PStr (c # cs)) = Inr (PStr [c])"
| "py_getitem0 (PDict kvs) = Inl KeyError"
| "py_getitem0 v = Inl TypeError"

text \<open>\<^verbatim>\<open>x.get(k, default)\<close>: only a dict has the method.\<close>

fun py_get :: "pyval \<Rightarrow> string \<Rightarrow> pyval \<Rightarrow> exn + pyval" where
  "py_get (PDict kvs) k dflt = Inr (case map_of kvs k of None \<Rightarrow> dflt | Some v \<Rightarrow> v)"
| "py_get v k dflt = Inl AttributeError"

text \<open>
  The elements a \<^verbatim>\<open>for\<close> loop visits: those of a list, the keys of a dict, the characters
  of a str; \<open>TypeError\<close> for an object that is not iterable (\<^verbatim>\<open>None\<close>, a number).
\<close>

fun py_iter :: "pyval \<Rightarrow> exn + pyval list" where
  "py_iter (PList xs) = Inr xs"
| "py_iter (PDict kvs) = Inr (map (\<lambda>kv. PStr (fst kv)) kvs)"
| "py_iter (PStr s) = Inr (map (\<lambda>c. PStr [c]) s)"
| "py_iter v = Inl TypeError"

section \<open>The fetcher\<close>

text \<open>
  What \<^verbatim>\<open>requests.get\<close> hands back, as far as the program reads it: the status code
  and the outcome of \<^verbatim>\<open>response.json()\<close>, which raises on a body that is not JSON.
\<close>

record response =
  status_code :: int
  json :: "exn + pyval"

text \<open>
  Line 38, the test of the loop:
  \<^verbatim>\<open>p.get("urn", {}).get("label") == "SMILES" and p["urn"].get("name") == "Connectivity"\<close>.
  The right operand is evaluated only when the left one holds.
\<close>

definition is_smiles_connectivity :: "pyval \<Rightarrow> exn + bool" where
  "is_smiles_connectivity p =
    (case py_get p ''urn'' (PDict []) of Inl e \<Rightarrow> Inl e | Inr urn \<Rightarrow>
    (case py_get urn ''label'' PNone of Inl e \<Rightarrow> Inl e | Inr label \<Rightarrow>
     if label \<noteq> PStr ''SMILES'' then Inr False else
    (case py_getitem p ''urn'' of Inl e \<Rightarrow> Inl e | Inr urn' \<Rightarrow>
    (case py_get urn' ''name'' PNone of Inl e \<Rightarrow> Inl e | Inr name \<Rightarrow>
     Inr (name = PStr ''Connectivity'')))))"

text \<open>Line 39: \<^verbatim>\<open>p["value"]["sval"]\<close>.\<close>

definition value_sval :: "pyval \<Rightarrow> exn + pyval" where
  "value_sval p =
    (case py_getitem p ''value'' of Inl e \<Rightarrow> Inl e | Inr v \<Rightarrow> py_getitem v ''sval'')"

text \<open>
  Lines 36 to 40: the loop over the properties. It returns the value of \<^verbatim>\<open>smiles\<close> when
  the loop is left: \<^verbatim>\<open>None\<close> when no property passed the test, the \<^verbatim>\<open>sval\<close> of the first
  one that did (\<^verbatim>\<open>break\<close>) otherwise.
\<close>

fun find_smiles :: "pyval list \<Rightarrow> exn + pyval" where
  "find_smiles [] = Inr PNone"
| "find_smiles (p # ps) =
    (case is_smiles_connectivity p of
       Inl e \<Rightarrow> Inl e
     | Inr True \<Rightarrow> value_sval p
     | Inr False \<Rightarrow> find_smiles ps)"

text \<open>
  \<^verbatim>\<open>fetch_data\<close>, lines 18 to 44. The first argument stands for \<^verbatim>\<open>requests.get\<close>: the
  answer of the network to a URL, an exception or a response. The result is the
  exception raised or the dict returned, with the events of the call in order.
\<close>

definition fetch_data ::
  "(string \<Rightarrow> exn + response) \<Rightarrow> pyval \<Rightarrow> string \<Rightarrow> (exn + pyval) \<times> event list" where
  "fetch_data requests_get compound_name base_url =
    (if \<not> truthy compound_name then
       (Inl (ValueError [Lit ''Invalid compound name '', Val compound_name]), [])
     else if \<not> isinstance_str compound_name then
       (Inl (ValueError [Lit ''Invalid compound name '', Val compound_name]), [])
     else
     let url = base_url @ ''/'' @ str_text compound_name @ ''/JSON'';
         t1 = [HttpGet url] in
    (case requests_get url of Inl e \<Rightarrow> (Inl e, t1) | Inr response \<Rightarrow>
     let t2 = t1 @ [LogMsg DEBUG [Lit ''Fetching from '', Val (PStr url)]] in
     if status_code response \<noteq> 200 then
       (Inl (ValueError [Lit ''Failed: '', Val (PInt (status_code response))]), t2)
     else
    (case json response of Inl e \<Rightarrow> (Inl e, t2) | Inr data \<Rightarrow>
     let t3 = t2 @ [Pprint data] in
    (case py_in ''PC_Compounds'' data of Inl e \<Rightarrow> (Inl e, t3) | Inr present \<Rightarrow>
     if \<not> present then
       (Inl (ValueError [Lit ''No compound data found for: '', Val compound_name]), t3)
     else
    (case py_getitem data ''PC_Compounds'' of Inl e \<Rightarrow> (Inl e, t3) | Inr compounds \<Rightarrow>
     if \<not> truthy compounds then
       (Inl (ValueError [Lit ''No compound data found for: '', Val compound_name]), t3)
     else
    (case py_getitem0 compounds of Inl e \<Rightarrow> (Inl e, t3) | Inr compound \<Rightarrow>
    (case py_get compound ''props'' PNone of Inl e \<Rightarrow> (Inl e, t3) | Inr props \<Rightarrow>
     let t4 = t3 @ [Pprint props] in
    (case py_iter props of Inl e \<Rightarrow> (Inl e, t4) | Inr ps \<Rightarrow>
    (case find_smiles ps of Inl e \<Rightarrow> (Inl e, t4) | Inr smiles \<Rightarrow>
     if \<not> truthy smiles then
       (Inl (ValueError [Lit ''No SMILES found for: '', Val compound_name]), t4)
     else
       (Inr (PDict [(''name'', compound_name), (''smiles'', smiles)]),
        t4 @ [LogMsg INFO [Lit ''Successfully fetched data for: '', Val compound_name]]))))))))))"

definition default_base_url :: string where
  "default_base_url = ''https://pubchem.ncbi.nlm.nih.gov/rest/pug/compound/name''"

section \<open>The descriptor calculator\<close>

text \<open>
  The functions of RDKit the program calls, for some type of molecules: the parser, which
  returns \<^verbatim>\<open>None\<close> for a string it cannot parse, and the four descriptors.
\<close>

record 'mol rdkit =
  MolFromSmiles :: "string \<Rightarrow> 'mol option"
  MolWt :: "'mol \<Rightarrow> 64 word"
  MolLogP :: "'mol \<Rightarrow> 64 word"
  NumHDonors :: "'mol \<Rightarrow> int"
  NumHAcceptors :: "'mol \<Rightarrow> int"

text \<open>\<^verbatim>\<open>compute_descriptors\<close>, lines 46 to 58.\<close>

definition compute_descriptors :: "'mol rdkit \<Rightarrow> pyval \<Rightarrow> exn + pyval" where
  "compute_descriptors rd smiles =
    (if \<not> truthy smiles then Inl (ValueError [Lit ''Pass SMILEs '', Val smiles])
     else if \<not> isinstance_str smiles then Inl (ValueError [Lit ''Pass SMILEs '', Val smiles])
     else
    (case MolFromSmiles rd (str_text smiles) of
       None \<Rightarrow> Inl (ValueError [Lit ''Failed to transform SMILES into molecules ''])
     | Some mol \<Rightarrow>
         Inr (PDict [(''MolWt'', PFloat (MolWt rd mol)),
                     (''LogP'', PFloat (MolLogP rd mol)),
                     (''NumHDonors'', PInt (NumHDonors rd mol)),
                     (''NumHAcceptors'', PInt (NumHAcceptors rd mol))])))"

section \<open>The persister\<close>

text \<open>
  The calls on pymongo, each with the exception it raises, if any: the constructor of
  the client, \<^verbatim>\<open>client[db_name]\<close>, \<^verbatim>\<open>db[collection_name]\<close> and \<^verbatim>\<open>insert_one\<close>, which
  answers with the identifier of the new document. \<^verbatim>\<open>client.close()\<close> does not raise.
\<close>

record mongo =
  MongoClient :: "string \<Rightarrow> exn option"
  getitem_db :: "string \<Rightarrow> exn option"
  getitem_collection :: "string \<Rightarrow> string \<Rightarrow> exn option"
  insert_one :: "string \<Rightarrow> string \<Rightarrow> pyval \<Rightarrow> exn + object_id"

text \<open>
  \<^verbatim>\<open>save_to_mongo\<close>, lines 60 to 72. \<open>body\<close> is the \<^verbatim>\<open>try\<close> block: its outcome, whether
  the local variable \<^verbatim>\<open>client\<close> has been bound, and its events. The \<^verbatim>\<open>except\<close> clause
  logs a pymongo error and raises it again. The \<^verbatim>\<open>finally\<close> clause reads \<^verbatim>\<open>client\<close>:
  when the constructor raised, the variable is unbound and the clause itself raises
  \<open>UnboundLocalError\<close>, which replaces the exception in flight.
\<close>

definition save_to_mongo ::
  "mongo \<Rightarrow> pyval \<Rightarrow> string \<Rightarrow> string \<Rightarrow> (exn + object_id) \<times> event list" where
  "save_to_mongo mongo document db_name collection_name =
    (let uri = ''mongodb://localhost:27017'';
         body =
          (case MongoClient mongo uri of
             Some e \<Rightarrow> (Inl e, False, [Connect uri])
           | None \<Rightarrow>
          (case getitem_db mongo db_name of
             Some e \<Rightarrow> (Inl e, True, [Connect uri])
           | None \<Rightarrow>
          (case getitem_collection mongo db_name collection_name of
             Some e \<Rightarrow> (Inl e, True, [Connect uri])
           | None \<Rightarrow>
             (insert_one mongo db_name collection_name document, True,
              [Connect uri, InsertOne db_name collection_name document]))));
         result = fst body;
         client_bound = fst (snd body);
         t1 = snd (snd body);
         t2 = (case result of
                 Inl e \<Rightarrow>
                   if is_PyMongoError e then t1 @ [LogExn ERROR ''MongoDB error: '' e] else t1
               | Inr inserted_id \<Rightarrow> t1)
     in if client_bound then (result, t2 @ [Close]) else (Inl UnboundLocalError, t2))"

section \<open>The runner\<close>

text \<open>\<^verbatim>\<open>{**d, k: v}\<close>: a copy of the dict \<open>d\<close> with the key set; \<open>TypeError\<close> when \<open>d\<close> is no mapping.\<close>

fun dict_set :: "(string \<times> pyval) list \<Rightarrow> string \<Rightarrow> pyval \<Rightarrow> (string \<times> pyval) list" where
  "dict_set [] k v = [(k, v)]"
| "dict_set (kv # kvs) k v = (if fst kv = k then (k, v) # kvs else kv # dict_set kvs k v)"

fun py_merge :: "pyval \<Rightarrow> string \<Rightarrow> pyval \<Rightarrow> exn + pyval" where
  "py_merge (PDict kvs) k v = Inr (PDict (dict_set kvs k v))"
| "py_merge d k v = Inl TypeError"

text \<open>
  Lines 90 to 97, the \<^verbatim>\<open>except\<close> clauses of the script in their order: the first clause
  whose class the exception belongs to logs it.
\<close>

definition handle :: "exn \<Rightarrow> event list" where
  "handle e =
    (if is_ValueError e then [LogExn ERROR ''Validation error: '' e]
     else if is_RequestException e then [LogExn ERROR ''Network error: '' e]
     else if is_PyMongoError e then [LogExn ERROR ''MongoDB error: '' e]
     else [LogExn CRITICAL ''Unexpected error: '' e])"

text \<open>
  The message of line 89. Its letter after "MongoDB" is the Cyrillic U+0441, two bytes
  in UTF-8.
\<close>

definition saved_message :: string where
  "saved_message = ''Document saved to MongoDB '' @ [CHR 0xD1, CHR 0x81] @ '' _id=''"

text \<open>
  The script, lines 75 to 97: the events of a run, given the answers of the network,
  of RDKit and of MongoDB. Every exception ends in one of the \<^verbatim>\<open>except\<close> clauses.
\<close>

definition main :: "(string \<Rightarrow> exn + response) \<Rightarrow> 'mol rdkit \<Rightarrow> mongo \<Rightarrow> event list" where
  "main requests_get rd mongo =
    (let compound = PStr ''aspirin'';
         fetched = fetch_data requests_get compound default_base_url;
         t1 = snd fetched in
    (case fst fetched of Inl e \<Rightarrow> t1 @ handle e | Inr pubchem_data \<Rightarrow>
     let t2 = t1 @ [Print ''Fetched from PubChem:'' pubchem_data] in
    (case py_getitem pubchem_data ''smiles'' of Inl e \<Rightarrow> t2 @ handle e | Inr smiles \<Rightarrow>
    (case compute_descriptors rd smiles of Inl e \<Rightarrow> t2 @ handle e | Inr descriptors \<Rightarrow>
     let t3 = t2 @ [Print ''Descriptors:'' descriptors] in
    (case py_merge pubchem_data ''descriptors'' descriptors of
       Inl e \<Rightarrow> t3 @ handle e | Inr doc \<Rightarrow>
     let saved = save_to_mongo mongo doc ''science_db'' ''compounds'';
         t4 = t3 @ snd saved in
    (case fst saved of Inl e \<Rightarrow> t4 @ handle e | Inr mongo_id \<Rightarrow>
       t4 @ [PrintId saved_message mongo_id]))))))"

section \<open>The shape of a response\<close>

text \<open>
  The service documents its answer as a \<^verbatim>\<open>PC_Compounds\<close> list of entries, each with a
  \<^verbatim>\<open>props\<close> list of objects \<^verbatim>\<open>{urn: {label, name}, value: {sval}}\<close>. \<open>prop_object p\<close> says
  that \<open>p\<close> is such an object as far as its \<^verbatim>\<open>urn\<close> goes: an object whose \<^verbatim>\<open>urn\<close>, when it
  has one, is an object. \<open>tagged_smiles p\<close> says that its \<^verbatim>\<open>urn\<close> carries the label
  "SMILES" and the name "Connectivity".
\<close>

definition prop_object :: "pyval \<Rightarrow> bool" where
  "prop_object p =
    (case p of
       PDict kvs \<Rightarrow>
         (case map_of kvs ''urn'' of None \<Rightarrow> True | Some (PDict u) \<Rightarrow> True | Some v \<Rightarrow> False)
     | v \<Rightarrow> False)"

definition tagged_smiles :: "pyval \<Rightarrow> bool" where
  "tagged_smiles p =
    (case p of
       PDict kvs \<Rightarrow>
         (case map_of kvs ''urn'' of
            Some (PDict u) \<Rightarrow>
              map_of u ''label'' = Some (PStr ''SMILES'') \<and>
              map_of u ''name'' = Some (PStr ''Connectivity'')
          | v \<Rightarrow> False)
     | v \<Rightarrow> False)"


section \<open>Sample answers of the outside world\<close>

text \<open>
  Concrete answers of the three collaborators, on which the theorems below are run.
  \<open>sample_body\<close> is a response of the service with two compound entries; the first has
  a property that is not tagged, then two tagged ones. \<open>sample_rdkit\<close> parses one string
  only, into the molecule \<open>0\<close>. \<open>sample_mongo\<close> accepts every document. \<open>sample_get\<close> is a
  network that answers every request with the given status and body, \<open>sample_down\<close> one
  that answers none.
\<close>

definition sample_tagged :: "pyval \<Rightarrow> pyval" where
  "sample_tagged sval =
    PDict [(''urn'', PDict [(''label'', PStr ''SMILES''), (''name'', PStr ''Connectivity'')]),
           (''value'', PDict [(''sval'', sval)])]"

definition sample_untagged :: pyval where
  "sample_untagged =
    PDict [(''urn'', PDict [(''label'', PStr ''SMILES''), (''name'', PStr ''Absolute'')]),
           (''value'', PDict [(''sval'', PStr ''CC(=O)Oc1ccccc1C(=O)O'')])]"

definition sample_body :: pyval where
  "sample_body =
    PDict [(''PC_Compounds'',
      PList [PDict [(''props'',
               PList [sample_untagged,
                      sample_tagged (PStr ''CC(=O)OC1=CC=CC=C1C(=O)O''),
                      sample_tagged (PStr ''C'')])],
             PDict [(''props'', PList [sample_tagged (PStr ''CCO'')])]])]"

definition sample_get :: "int \<Rightarrow> pyval \<Rightarrow> string \<Rightarrow> exn + response" where
  "sample_get status body url = Inr \<lparr>status_code = status, json = Inr body\<rparr>"

definition sample_down :: "string \<Rightarrow> exn + response" where
  "sample_down url = Inl RequestException"

definition sample_rdkit :: "nat rdkit" where
  "sample_rdkit =
    \<lparr>MolFromSmiles = (\<lambda>s. if s = ''CC(=O)OC1=CC=CC=C1C(=O)O'' then Some 0 else None),
     MolWt = (\<lambda>mol. 0x40668516872B020C),
     MolLogP = (\<lambda>mol. 0x3FF4F62B6AE7D567),
     NumHDonors = (\<lambda>mol. 1),
     NumHAcceptors = (\<lambda>mol. 3)\<rparr>"

definition sample_mongo :: mongo where
  "sample_mongo =
    \<lparr>MongoClient = (\<lambda>uri. None),
     getitem_db = (\<lambda>db_name. None),
     getitem_collection = (\<lambda>db_name collection_name. None),
     insert_one = (\<lambda>db_name collection_name document. Inr (ObjectId ''65f1c0ffee00''))\<rparr>"

section \<open>Lemmas on the loop and on the three stages\<close>

lemma is_smiles_connectivity_object:
  assumes "prop_object p"
  shows "is_smiles_connectivity p = Inr (tagged_smiles p)"
proof (cases p)
  case (PDict kvs)
  show ?thesis
  proof (cases "map_of kvs ''urn''")
    case None
    with PDict show ?thesis
      by (simp add: tagged_smiles_def is_smiles_connectivity_def)
  next
    case (Some u)
    with PDict assms obtain ukvs where u: "u = PDict ukvs"
      by (cases u) (simp_all add: prop_object_def)
    show ?thesis
      using PDict Some u
      by (auto simp: tagged_smiles_def is_smiles_connectivity_def split: option.splits)
  qed
qed (use assms in \<open>simp_all add: prop_object_def\<close>)

lemma tagged_smiles_object: "tagged_smiles p \<Longrightarrow> prop_object p"
  by (auto simp: tagged_smiles_def prop_object_def split: pyval.splits option.splits)

lemma find_smiles_skip:
  "\<forall>q\<in>set pre. is_smiles_connectivity q = Inr False \<Longrightarrow>
   find_smiles (pre @ ps) = find_smiles ps"
  by (induction pre) simp_all

lemma find_smiles_no_match:
  "\<forall>q\<in>set ps. is_smiles_connectivity q = Inr False \<Longrightarrow> find_smiles ps = Inr PNone"
  by (induction ps) simp_all

lemma find_smiles_first_match:
  assumes "\<forall>q\<in>set pre. prop_object q \<and> \<not> tagged_smiles q"
    and "tagged_smiles p"
  shows "find_smiles (pre @ p # post) = value_sval p"
proof -
  have "\<forall>q\<in>set pre. is_smiles_connectivity q = Inr False"
    using assms(1) by (simp add: is_smiles_connectivity_object)
  then have "find_smiles (pre @ p # post) = find_smiles (p # post)"
    by (rule find_smiles_skip)
  also have "\<dots> = value_sval p"
    using assms(2) by (simp add: is_smiles_connectivity_object tagged_smiles_object)
  finally show ?thesis .
qed


text \<open>A call that returns has passed every guard: the dict has the two keys, in this
  order, and the value under \<^verbatim>\<open>smiles\<close> is truthy.\<close>

lemma fetch_data_success:
  assumes "fetch_data requests_get compound_name base_url = (Inr r, t)"
  shows "\<exists>s. r = PDict [(''name'', compound_name), (''smiles'', s)] \<and> truthy s"
  using assms
  by (auto simp: fetch_data_def Let_def split: if_splits sum.splits)


text \<open>The response has a tagged property: the outcome is decided by the truth value of
  the \<^verbatim>\<open>sval\<close> of the first one.\<close>

lemma fetch_data_tagged_property:
  assumes "n \<noteq> []"
    and "requests_get (base_url @ ''/'' @ n @ ''/JSON'') = Inr response"
    and "status_code response = 200"
    and "json response = Inr (PDict kvs)"
    and "map_of kvs ''PC_Compounds'' = Some (PList (PDict ckvs # others))"
    and "map_of ckvs ''props'' = Some (PList (pre @ PDict pkvs # post))"
    and "\<forall>q\<in>set pre. prop_object q \<and> \<not> tagged_smiles q"
    and "tagged_smiles (PDict pkvs)"
    and "map_of pkvs ''value'' = Some (PDict vkvs)"
    and "map_of vkvs ''sval'' = Some sval"
  shows "fst (fetch_data requests_get (PStr n) base_url) =
         (if truthy sval then Inr (PDict [(''name'', PStr n), (''smiles'', sval)])
          else Inl (ValueError [Lit ''No SMILES found for: '', Val (PStr n)]))"
proof -
  have "value_sval (PDict pkvs) = Inr sval"
    using assms(9,10) by (simp add: value_sval_def)
  with assms(7,8) have "find_smiles (pre @ PDict pkvs # post) = Inr sval"
    by (simp add: find_smiles_first_match)
  with assms(1-6) show ?thesis
    by (simp add: fetch_data_def Let_def)
qed

text \<open>The first entry has a list of properties and none of them is tagged: the loop
  leaves \<^verbatim>\<open>smiles\<close> at \<^verbatim>\<open>None\<close> and line 42 raises.\<close>

lemma fetch_data_no_tagged_property:
  assumes "n \<noteq> []"
    and "requests_get (base_url @ ''/'' @ n @ ''/JSON'') = Inr response"
    and "status_code response = 200"
    and "json response = Inr (PDict kvs)"
    and "map_of kvs ''PC_Compounds'' = Some (PList (PDict ckvs # others))"
    and "map_of ckvs ''props'' = Some (PList ps)"
    and "\<forall>q\<in>set ps. prop_object q \<and> \<not> tagged_smiles q"
  shows "fst (fetch_data requests_get (PStr n) base_url) =
         Inl (ValueError [Lit ''No SMILES found for: '', Val (PStr n)])"
proof -
  have "find_smiles ps = Inr PNone"
    using assms(7) by (simp add: find_smiles_no_match is_smiles_connectivity_object)
  with assms(1-6) show ?thesis
    by (simp add: fetch_data_def Let_def)
qed

text \<open>Once the client exists, \<^verbatim>\<open>close\<close> is called exactly once, last, and the outcome
  of the \<^verbatim>\<open>try\<close> block is the outcome of the call.\<close>

lemma save_to_mongo_closes_once:
  assumes "MongoClient mongo ''mongodb://localhost:27017'' = None"
  shows "fst (save_to_mongo mongo document db_name collection_name) =
           (case getitem_db mongo db_name of Some e \<Rightarrow> Inl e | None \<Rightarrow>
           (case getitem_collection mongo db_name collection_name of Some e \<Rightarrow> Inl e | None \<Rightarrow>
              insert_one mongo db_name collection_name document))"
    and "count_list (snd (save_to_mongo mongo document db_name collection_name)) Close = 1"
    and "last (snd (save_to_mongo mongo document db_name collection_name)) = Close"
  using assms by (auto simp: save_to_mongo_def Let_def split: option.splits sum.splits)

lemma save_to_mongo_success:
  assumes "save_to_mongo mongo document db_name collection_name = (Inr mongo_id, t)"
  shows "insert_one mongo db_name collection_name document = Inr mongo_id \<and>
         t = [Connect ''mongodb://localhost:27017'',
              InsertOne db_name collection_name document, Close]"
  using assms by (auto simp: save_to_mongo_def Let_def split: option.splits sum.splits if_splits)

lemma sample_fetch:
  "fetch_data (sample_get 200 sample_body) (PStr ''aspirin'') default_base_url =
    (Inr (PDict [(''name'', PStr ''aspirin''), (''smiles'', PStr ''CC(=O)OC1=CC=CC=C1C(=O)O'')]),
     [HttpGet (default_base_url @ ''/aspirin/JSON''),
      LogMsg DEBUG [Lit ''Fetching from '', Val (PStr (default_base_url @ ''/aspirin/JSON''))],
      Pprint sample_body,
      Pprint (PList [sample_untagged, sample_tagged (PStr ''CC(=O)OC1=CC=CC=C1C(=O)O''),
                     sample_tagged (PStr ''C'')]),
      LogMsg INFO [Lit ''Successfully fetched data for: '', Val (PStr ''aspirin'')]])"
  by (simp add: fetch_data_def Let_def sample_get_def sample_body_def sample_tagged_def
      sample_untagged_def is_smiles_connectivity_def value_sval_def)

section \<open>The fetcher: what it returns\<close>

text \<open>
  C1, as the code has it. The claim as written promises the \<^verbatim>\<open>sval\<close> of the first tagged
  property whatever it is; line 41 refuses an empty one. The theorem below runs the
  fetcher on a response whose first tagged property carries the empty string and whose
  second one carries "CCO": the call raises, it returns neither.
\<close>

theorem fetch_data_empty_sval_counterexample:
  "fst (fetch_data
     (sample_get 200
        (PDict [(''PC_Compounds'',
           PList [PDict [(''props'', PList [sample_tagged (PStr []), sample_tagged (PStr ''CCO'')])]])]))
     (PStr ''aspirin'') default_base_url) =
   Inl (ValueError [Lit ''No SMILES found for: '', Val (PStr ''aspirin'')])"
  by (simp add: fetch_data_def Let_def sample_get_def sample_tagged_def
      is_smiles_connectivity_def value_sval_def)

text \<open>
  C1 (amended). The response has status 200, its \<^verbatim>\<open>PC_Compounds\<close> list is not empty, and
  the \<^verbatim>\<open>props\<close> list of its first entry holds a property \<open>p\<close> tagged with the label
  "SMILES" and the name "Connectivity", after properties \<open>pre\<close> that are not tagged, and
  the \<^verbatim>\<open>sval\<close> of \<open>p\<close> is a non-empty string \<open>x\<close>. Then \<open>fetch_data\<close> returns the dict with
  the queried name and with \<open>x\<close> as \<^verbatim>\<open>smiles\<close>. The other entries (\<open>others\<close>) and the
  properties after \<open>p\<close> (\<open>post\<close>), tagged or not, are arbitrary: they do not count.
\<close>

theorem fetch_data_first_smiles:
  assumes "n \<noteq> []"
    and "requests_get (base_url @ ''/'' @ n @ ''/JSON'') = Inr response"
    and "status_code response = 200"
    and "json response = Inr (PDict kvs)"
    and "map_of kvs ''PC_Compounds'' = Some (PList (PDict ckvs # others))"
    and "map_of ckvs ''props'' = Some (PList (pre @ PDict pkvs # post))"
    and "\<forall>q\<in>set pre. prop_object q \<and> \<not> tagged_smiles q"
    and "tagged_smiles (PDict pkvs)"
    and "map_of pkvs ''value'' = Some (PDict vkvs)"
    and "map_of vkvs ''sval'' = Some (PStr x)" and "x \<noteq> []"
  shows "fst (fetch_data requests_get (PStr n) base_url) =
         Inr (PDict [(''name'', PStr n), (''smiles'', PStr x)])"
proof -
  have "fst (fetch_data requests_get (PStr n) base_url) =
         (if truthy (PStr x) then Inr (PDict [(''name'', PStr n), (''smiles'', PStr x)])
          else Inl (ValueError [Lit ''No SMILES found for: '', Val (PStr n)]))"
    using assms(1-10) by (rule fetch_data_tagged_property)
  with assms(11) show ?thesis
    by simp
qed

theorem fetch_data_first_smiles_witness:
  "fst (fetch_data (sample_get 200 sample_body) (PStr ''aspirin'') default_base_url) =
   Inr (PDict [(''name'', PStr ''aspirin''), (''smiles'', PStr ''CC(=O)OC1=CC=CC=C1C(=O)O'')])"
  by (rule fetch_data_first_smiles
      [where response = "\<lparr>status_code = 200, json = Inr sample_body\<rparr>"
         and kvs = "[(''PC_Compounds'',
              PList [PDict [(''props'',
                       PList [sample_untagged,
                              sample_tagged (PStr ''CC(=O)OC1=CC=CC=C1C(=O)O''),
                              sample_tagged (PStr ''C'')])],
                     PDict [(''props'', PList [sample_tagged (PStr ''CCO'')])]])]"
         and ckvs = "[(''props'',
                       PList [sample_untagged,
                              sample_tagged (PStr ''CC(=O)OC1=CC=CC=C1C(=O)O''),
                              sample_tagged (PStr ''C'')])]"
         and others = "[PDict [(''props'', PList [sample_tagged (PStr ''CCO'')])]]"
         and pre = "[sample_untagged]"
         and post = "[sample_tagged (PStr ''C'')]"
         and pkvs = "[(''urn'', PDict [(''label'', PStr ''SMILES''), (''name'', PStr ''Connectivity'')]),
           (''value'', PDict [(''sval'', PStr ''CC(=O)OC1=CC=CC=C1C(=O)O'')])]"
         and vkvs = "[(''sval'', PStr ''CC(=O)OC1=CC=CC=C1C(=O)O'')]"])
    (simp_all add: sample_get_def sample_body_def sample_tagged_def sample_untagged_def
      prop_object_def tagged_smiles_def)



section \<open>The fetcher: how it fails\<close>

text \<open>
  C7. A compound name that is empty or is not a str makes \<open>fetch_data\<close> raise the
  \<open>ValueError\<close> "Invalid compound name ..." (the InvalidInput failure) with an empty
  trace: the check comes before the request, so nothing is sent, whatever the network
  would have answered.
\<close>

theorem fetch_data_invalid_name:
  "compound_name = PStr [] \<or> \<not> isinstance_str compound_name \<Longrightarrow>
   fetch_data requests_get compound_name base_url =
     (Inl (ValueError [Lit ''Invalid compound name '', Val compound_name]), [])"
  by (auto simp: fetch_data_def)

theorem fetch_data_invalid_name_witness:
  "fetch_data (sample_get 200 sample_body) (PStr []) default_base_url =
     (Inl (ValueError [Lit ''Invalid compound name '', Val (PStr [])]), []) \<and>
   fetch_data (sample_get 200 sample_body) (PInt 7) default_base_url =
     (Inl (ValueError [Lit ''Invalid compound name '', Val (PInt 7)]), [])"
  using fetch_data_invalid_name [of "PStr []" "sample_get 200 sample_body" default_base_url]
    fetch_data_invalid_name [of "PInt 7" "sample_get 200 sample_body" default_base_url]
  by simp

text \<open>
  C9. The response has status 200 and its body is an object in which \<^verbatim>\<open>PC_Compounds\<close> is
  absent, or present and falsy, as the empty list is. Then \<open>fetch_data\<close> raises the
  \<open>ValueError\<close> "No compound data found for: ..." (the NotFound failure).
\<close>

theorem fetch_data_not_found:
  assumes "n \<noteq> []"
    and "requests_get (base_url @ ''/'' @ n @ ''/JSON'') = Inr response"
    and "status_code response = 200"
    and "json response = Inr (PDict kvs)"
    and "map_of kvs ''PC_Compounds'' = None \<or>
         (\<exists>v. map_of kvs ''PC_Compounds'' = Some v \<and> \<not> truthy v)"
  shows "fst (fetch_data requests_get (PStr n) base_url) =
         Inl (ValueError [Lit ''No compound data found for: '', Val (PStr n)])"
  using assms by (auto simp: fetch_data_def Let_def)

theorem fetch_data_not_found_witness:
  "fst (fetch_data (sample_get 200 (PDict [(''PC_Compounds'', PList [])])) (PStr ''aspirin'')
      default_base_url) =
     Inl (ValueError [Lit ''No compound data found for: '', Val (PStr ''aspirin'')]) \<and>
   fst (fetch_data (sample_get 200 (PDict [(''Fault'', PDict [])])) (PStr ''aspirin'')
      default_base_url) =
     Inl (ValueError [Lit ''No compound data found for: '', Val (PStr ''aspirin'')])"
  using fetch_data_not_found
    [where requests_get = "sample_get 200 (PDict [(''PC_Compounds'', PList [])])"
       and n = "''aspirin''" and base_url = default_base_url
       and response = "\<lparr>status_code = 200, json = Inr (PDict [(''PC_Compounds'', PList [])])\<rparr>"
       and kvs = "[(''PC_Compounds'', PList [])]"]
    fetch_data_not_found
    [where requests_get = "sample_get 200 (PDict [(''Fault'', PDict [])])"
       and n = "''aspirin''" and base_url = default_base_url
       and response = "\<lparr>status_code = 200, json = Inr (PDict [(''Fault'', PDict [])])\<rparr>"
       and kvs = "[(''Fault'', PDict [])]"]
  by (simp add: sample_get_def)

text \<open>
  C4, at the input where the code departs from it. The first entry of the response has
  no \<^verbatim>\<open>props\<close> at all: \<^verbatim>\<open>compound.get("props")\<close> is \<^verbatim>\<open>None\<close>, the \<^verbatim>\<open>for\<close> loop of line 37
  cannot iterate over it, and the call ends in a \<open>TypeError\<close>, which the script logs as
  an unexpected error, where C4 announces the \<open>ValueError\<close> "No SMILES found". (With a
  \<^verbatim>\<open>props\<close> list that holds no tagged property the \<open>ValueError\<close> is raised: lemma
  \<open>fetch_data_no_tagged_property\<close>.)
\<close>

theorem fetch_data_no_props:
  "fst (fetch_data (sample_get 200 (PDict [(''PC_Compounds'', PList [PDict []])]))
      (PStr ''aspirin'') default_base_url) = Inl TypeError \<and>
   main (sample_get 200 (PDict [(''PC_Compounds'', PList [PDict []])])) sample_rdkit sample_mongo =
     [HttpGet (default_base_url @ ''/aspirin/JSON''),
      LogMsg DEBUG [Lit ''Fetching from '', Val (PStr (default_base_url @ ''/aspirin/JSON''))],
      Pprint (PDict [(''PC_Compounds'', PList [PDict []])]),
      Pprint PNone,
      LogExn CRITICAL ''Unexpected error: '' TypeError]"
  by (simp add: main_def fetch_data_def Let_def sample_get_def handle_def)

text \<open>
  C3, as the code has it. A status other than 200 raises a \<open>ValueError\<close>, the class of
  the invalid-name, not-found and missing-field failures, and the script logs it with
  them under "Validation error"; "Network error" is the category of the exceptions of
  \<^verbatim>\<open>requests\<close>. The three runs below: status 404, an empty object with status 200, and
  a network that is down.
\<close>

theorem http_failure_logged_as_validation_counterexample:
  "main (sample_get 404 (PDict [])) sample_rdkit sample_mongo =
     [HttpGet (default_base_url @ ''/aspirin/JSON''),
      LogMsg DEBUG [Lit ''Fetching from '', Val (PStr (default_base_url @ ''/aspirin/JSON''))],
      LogExn ERROR ''Validation error: '' (ValueError [Lit ''Failed: '', Val (PInt 404)])] \<and>
   main (sample_get 200 (PDict [])) sample_rdkit sample_mongo =
     [HttpGet (default_base_url @ ''/aspirin/JSON''),
      LogMsg DEBUG [Lit ''Fetching from '', Val (PStr (default_base_url @ ''/aspirin/JSON''))],
      Pprint (PDict []),
      LogExn ERROR ''Validation error: ''
        (ValueError [Lit ''No compound data found for: '', Val (PStr ''aspirin'')])] \<and>
   main sample_down sample_rdkit sample_mongo =
     [HttpGet (default_base_url @ ''/aspirin/JSON''),
      LogExn ERROR ''Network error: '' RequestException]"
  by (simp add: main_def fetch_data_def Let_def handle_def sample_get_def sample_down_def)

text \<open>
  C3 (amended). When the status of the response is not 200, \<open>fetch_data\<close> raises the
  \<open>ValueError\<close> "Failed: <status>" after the request and the debug line, and reads
  nothing of the body. The exception differs from the three other failures of the
  fetcher by its message only; its class is theirs. The \<^verbatim>\<open>except ValueError\<close> clause of
  the script takes it: the run of the script ends with the error line "Validation
  error: Failed: <status>", and no later stage runs.
\<close>

theorem http_failure_is_validation_error:
  assumes "n \<noteq> []"
    and "requests_get (base_url @ ''/'' @ n @ ''/JSON'') = Inr response"
    and "status_code response \<noteq> 200"
  shows "fetch_data requests_get (PStr n) base_url =
           (Inl (ValueError [Lit ''Failed: '', Val (PInt (status_code response))]),
            [HttpGet (base_url @ ''/'' @ n @ ''/JSON''),
             LogMsg DEBUG [Lit ''Fetching from '', Val (PStr (base_url @ ''/'' @ n @ ''/JSON''))]]) \<and>
         (\<forall>m. ValueError [Lit ''Failed: '', Val (PInt (status_code response))] \<noteq>
                ValueError (Lit ''Invalid compound name '' # m) \<and>
              ValueError [Lit ''Failed: '', Val (PInt (status_code response))] \<noteq>
                ValueError (Lit ''No compound data found for: '' # m) \<and>
              ValueError [Lit ''Failed: '', Val (PInt (status_code response))] \<noteq>
                ValueError (Lit ''No SMILES found for: '' # m)) \<and>
         is_ValueError (ValueError [Lit ''Failed: '', Val (PInt (status_code response))]) \<and>
         handle (ValueError [Lit ''Failed: '', Val (PInt (status_code response))]) =
           [LogExn ERROR ''Validation error: ''
              (ValueError [Lit ''Failed: '', Val (PInt (status_code response))])] \<and>
         (n = ''aspirin'' \<and> base_url = default_base_url \<longrightarrow>
            main requests_get rd mongo =
              [HttpGet (default_base_url @ ''/aspirin/JSON''),
               LogMsg DEBUG [Lit ''Fetching from '', Val (PStr (default_base_url @ ''/aspirin/JSON''))],
               LogExn ERROR ''Validation error: ''
                 (ValueError [Lit ''Failed: '', Val (PInt (status_code response))])])"
proof -
  have f: "fetch_data requests_get (PStr n) base_url =
           (Inl (ValueError [Lit ''Failed: '', Val (PInt (status_code response))]),
            [HttpGet (base_url @ ''/'' @ n @ ''/JSON''),
             LogMsg DEBUG [Lit ''Fetching from '', Val (PStr (base_url @ ''/'' @ n @ ''/JSON''))]])"
    using assms by (simp add: fetch_data_def Let_def)
  have h: "handle (ValueError [Lit ''Failed: '', Val (PInt (status_code response))]) =
           [LogExn ERROR ''Validation error: ''
              (ValueError [Lit ''Failed: '', Val (PInt (status_code response))])]"
    by (simp add: handle_def)
  have m: "main requests_get rd mongo =
              [HttpGet (default_base_url @ ''/aspirin/JSON''),
               LogMsg DEBUG [Lit ''Fetching from '', Val (PStr (default_base_url @ ''/aspirin/JSON''))],
               LogExn ERROR ''Validation error: ''
                 (ValueError [Lit ''Failed: '', Val (PInt (status_code response))])]"
    if "n = ''aspirin''" and "base_url = default_base_url"
    using f that by (simp add: main_def Let_def h)
  show ?thesis
    using f h m by simp
qed

theorem http_failure_is_validation_error_witness:
  "fetch_data (sample_get 503 (PDict [])) (PStr ''aspirin'') default_base_url =
     (Inl (ValueError [Lit ''Failed: '', Val (PInt 503)]),
      [HttpGet (default_base_url @ ''/aspirin/JSON''),
       LogMsg DEBUG [Lit ''Fetching from '', Val (PStr (default_base_url @ ''/aspirin/JSON''))]]) \<and>
   main (sample_get 503 (PDict [])) sample_rdkit sample_mongo =
     [HttpGet (default_base_url @ ''/aspirin/JSON''),
      LogMsg DEBUG [Lit ''Fetching from '', Val (PStr (default_base_url @ ''/aspirin/JSON''))],
      LogExn ERROR ''Validation error: '' (ValueError [Lit ''Failed: '', Val (PInt 503)])]"
  using http_failure_is_validation_error
    [where requests_get = "sample_get 503 (PDict [])"
       and n = "''aspirin''" and base_url = default_base_url
       and response = "\<lparr>status_code = 503, json = Inr (PDict [])\<rparr>"
       and rd = sample_rdkit and mongo = sample_mongo]
  by (simp add: sample_get_def)

section \<open>The descriptor calculator\<close>

text \<open>
  C5. A non-empty string that RDKit does not parse makes \<open>compute_descriptors\<close> raise the
  \<open>ValueError\<close> "Failed to transform SMILES into molecules " (the ParseError failure):
  the outcome is the exception, and no descriptor is computed. And whenever the call
  returns, its argument was a non-empty string that RDKit parsed, and the dict returned
  has exactly the four keys \<^verbatim>\<open>MolWt\<close>, \<^verbatim>\<open>LogP\<close>, \<^verbatim>\<open>NumHDonors\<close>, \<^verbatim>\<open>NumHAcceptors\<close>, with the
  descriptors of that molecule.
\<close>

theorem compute_descriptors_parse_error:
  "(s \<noteq> [] \<and> MolFromSmiles rd s = None \<longrightarrow>
      compute_descriptors rd (PStr s) =
        Inl (ValueError [Lit ''Failed to transform SMILES into molecules ''])) \<and>
   (compute_descriptors rd smiles = Inr descriptors \<longrightarrow>
      (\<exists>x mol. smiles = PStr x \<and> x \<noteq> [] \<and> MolFromSmiles rd x = Some mol \<and>
         descriptors = PDict [(''MolWt'', PFloat (MolWt rd mol)),
                              (''LogP'', PFloat (MolLogP rd mol)),
                              (''NumHDonors'', PInt (NumHDonors rd mol)),
                              (''NumHAcceptors'', PInt (NumHAcceptors rd mol))]))"
proof (intro conjI impI)
  assume "s \<noteq> [] \<and> MolFromSmiles rd s = None"
  then show "compute_descriptors rd (PStr s) =
        Inl (ValueError [Lit ''Failed to transform SMILES into molecules ''])"
    by (simp add: compute_descriptors_def)
next
  assume ok: "compute_descriptors rd smiles = Inr descriptors"
  then obtain x where x: "smiles = PStr x"
    by (cases smiles) (simp_all add: compute_descriptors_def split: if_splits)
  with ok show "\<exists>x mol. smiles = PStr x \<and> x \<noteq> [] \<and> MolFromSmiles rd x = Some mol \<and>
         descriptors = PDict [(''MolWt'', PFloat (MolWt rd mol)),
                              (''LogP'', PFloat (MolLogP rd mol)),
                              (''NumHDonors'', PInt (NumHDonors rd mol)),
                              (''NumHAcceptors'', PInt (NumHAcceptors rd mol))]"
    by (auto simp: compute_descriptors_def split: if_splits option.splits)
qed

theorem compute_descriptors_parse_error_witness:
  "compute_descriptors sample_rdkit (PStr ''C1CC'') =
     Inl (ValueError [Lit ''Failed to transform SMILES into molecules '']) \<and>
   (\<exists>x mol. PStr ''CC(=O)OC1=CC=CC=C1C(=O)O'' = PStr x \<and> x \<noteq> [] \<and>
      MolFromSmiles sample_rdkit x = Some mol \<and>
      PDict [(''MolWt'', PFloat 0x40668516872B020C), (''LogP'', PFloat 0x3FF4F62B6AE7D567),
             (''NumHDonors'', PInt 1), (''NumHAcceptors'', PInt 3)] =
      PDict [(''MolWt'', PFloat (MolWt sample_rdkit mol)),
             (''LogP'', PFloat (MolLogP sample_rdkit mol)),
             (''NumHDonors'', PInt (NumHDonors sample_rdkit mol)),
             (''NumHAcceptors'', PInt (NumHAcceptors sample_rdkit mol))])"
  using compute_descriptors_parse_error
    [where s = "''C1CC''" and rd = sample_rdkit and smiles = "PStr ''CC(=O)OC1=CC=CC=C1C(=O)O''"
       and descriptors = "PDict [(''MolWt'', PFloat 0x40668516872B020C),
             (''LogP'', PFloat 0x3FF4F62B6AE7D567),
             (''NumHDonors'', PInt 1), (''NumHAcceptors'', PInt 3)]"]
  by (simp add: sample_rdkit_def compute_descriptors_def)

section \<open>The persister\<close>

text \<open>
  C2, at the input where the code departs from it. The constructor of the client is
  inside the \<^verbatim>\<open>try\<close> block. When it raises (\<open>e\<close>), the variable \<^verbatim>\<open>client\<close> is never bound,
  and the \<^verbatim>\<open>finally\<close> clause, which reads it, raises \<open>UnboundLocalError\<close>: the caller gets
  this new error in place of \<open>e\<close>, and \<^verbatim>\<open>close\<close> is not called. (Once the client exists,
  \<^verbatim>\<open>close\<close> is called exactly once on every path and adds no error: lemma
  \<open>save_to_mongo_closes_once\<close>.)
\<close>

theorem save_to_mongo_unbound_client:
  assumes "MongoClient mongo ''mongodb://localhost:27017'' = Some e"
  shows "save_to_mongo mongo document db_name collection_name =
           (Inl UnboundLocalError,
            Connect ''mongodb://localhost:27017'' #
              (if is_PyMongoError e then [LogExn ERROR ''MongoDB error: '' e] else [])) \<and>
         count_list (snd (save_to_mongo mongo document db_name collection_name)) Close = 0"
  using assms by (simp add: save_to_mongo_def Let_def)

theorem save_to_mongo_unbound_client_witness:
  "save_to_mongo (sample_mongo\<lparr>MongoClient := \<lambda>uri. Some ConnectionFailure\<rparr>)
      (PDict [(''name'', PStr ''aspirin'')]) ''science_db'' ''compounds'' =
     (Inl UnboundLocalError,
      [Connect ''mongodb://localhost:27017'', LogExn ERROR ''MongoDB error: '' ConnectionFailure]) \<and>
   save_to_mongo (sample_mongo\<lparr>MongoClient := \<lambda>uri. Some OtherException\<rparr>)
      (PDict [(''name'', PStr ''aspirin'')]) ''science_db'' ''compounds'' =
     (Inl UnboundLocalError, [Connect ''mongodb://localhost:27017''])"
  using save_to_mongo_unbound_client
      [where mongo = "sample_mongo\<lparr>MongoClient := \<lambda>uri. Some ConnectionFailure\<rparr>"
         and e = ConnectionFailure and document = "PDict [(''name'', PStr ''aspirin'')]"
         and db_name = "''science_db''" and collection_name = "''compounds''"]
    save_to_mongo_unbound_client
      [where mongo = "sample_mongo\<lparr>MongoClient := \<lambda>uri. Some OtherException\<rparr>"
         and e = OtherException and document = "PDict [(''name'', PStr ''aspirin'')]"
         and db_name = "''science_db''" and collection_name = "''compounds''"]
  by simp

section \<open>The whole run\<close>

text \<open>
  C8. In a run of the script in which the three stages succeed (\<open>fetch_data\<close> returns
  \<open>pubchem_data\<close>, \<open>compute_descriptors\<close> returns \<open>descriptors\<close> for its \<^verbatim>\<open>smiles\<close>, and
  \<open>save_to_mongo\<close> returns \<open>mongo_id\<close> for the document \<open>doc\<close> built from the two), \<open>doc\<close> has
  exactly the keys \<^verbatim>\<open>name\<close>, \<^verbatim>\<open>smiles\<close>, \<^verbatim>\<open>descriptors\<close>: the queried name "aspirin", the
  non-empty string that was fetched, and the four descriptors RDKit computed for the
  molecule of that string. This \<open>doc\<close> is what \<^verbatim>\<open>insert_one\<close> receives, in the database
  \<^verbatim>\<open>science_db\<close> and the collection \<^verbatim>\<open>compounds\<close>; the identifier the store assigned to
  it is the one the run reports in its last line, after the client is closed, and it is
  not empty when the store assigns no empty identifier.
\<close>

theorem main_success_document:
  assumes "fetch_data requests_get (PStr ''aspirin'') default_base_url = (Inr pubchem_data, t1)"
    and "py_getitem pubchem_data ''smiles'' = Inr smiles"
    and "compute_descriptors rd smiles = Inr descriptors"
    and "py_merge pubchem_data ''descriptors'' descriptors = Inr doc"
    and "save_to_mongo mongo doc ''science_db'' ''compounds'' = (Inr mongo_id, t2)"
    and "\<forall>d i. insert_one mongo ''science_db'' ''compounds'' d = Inr i \<longrightarrow> i \<noteq> ObjectId []"
  shows "\<exists>x mol.
           x \<noteq> [] \<and> MolFromSmiles rd x = Some mol \<and>
           pubchem_data = PDict [(''name'', PStr ''aspirin''), (''smiles'', PStr x)] \<and>
           doc = PDict [(''name'', PStr ''aspirin''), (''smiles'', PStr x),
                        (''descriptors'',
                         PDict [(''MolWt'', PFloat (MolWt rd mol)),
                                (''LogP'', PFloat (MolLogP rd mol)),
                                (''NumHDonors'', PInt (NumHDonors rd mol)),
                                (''NumHAcceptors'', PInt (NumHAcceptors rd mol))])] \<and>
           insert_one mongo ''science_db'' ''compounds'' doc = Inr mongo_id \<and>
           mongo_id \<noteq> ObjectId [] \<and>
           main requests_get rd mongo =
             t1 @ [Print ''Fetched from PubChem:'' pubchem_data,
                   Print ''Descriptors:'' descriptors,
                   Connect ''mongodb://localhost:27017'',
                   InsertOne ''science_db'' ''compounds'' doc,
                   Close,
                   PrintId saved_message mongo_id]"
proof -
  from assms(1) obtain s where
    pd: "pubchem_data = PDict [(''name'', PStr ''aspirin''), (''smiles'', s)]"
    using fetch_data_success by blast
  with assms(2) have s: "smiles = s" by simp
  from assms(3) obtain x mol where x: "smiles = PStr x" "x \<noteq> []"
    and mol: "MolFromSmiles rd x = Some mol"
    and d: "descriptors = PDict [(''MolWt'', PFloat (MolWt rd mol)),
                                (''LogP'', PFloat (MolLogP rd mol)),
                                (''NumHDonors'', PInt (NumHDonors rd mol)),
                                (''NumHAcceptors'', PInt (NumHAcceptors rd mol))]"
    by (auto simp: compute_descriptors_def split: if_splits option.splits
        elim: isinstance_str.elims)
  from assms(4) pd have doc: "doc = PDict [(''name'', PStr ''aspirin''), (''smiles'', s),
                        (''descriptors'', descriptors)]"
    by simp
  from assms(5) have sv: "insert_one mongo ''science_db'' ''compounds'' doc = Inr mongo_id"
    "t2 = [Connect ''mongodb://localhost:27017'', InsertOne ''science_db'' ''compounds'' doc, Close]"
    using save_to_mongo_success by blast+
  from sv(1) assms(6) have ne: "mongo_id \<noteq> ObjectId []"
    by blast
  have "main requests_get rd mongo =
             t1 @ [Print ''Fetched from PubChem:'' pubchem_data,
                   Print ''Descriptors:'' descriptors,
                   Connect ''mongodb://localhost:27017'',
                   InsertOne ''science_db'' ''compounds'' doc,
                   Close,
                   PrintId saved_message mongo_id]"
    using assms(1-5) sv by (simp add: main_def Let_def)
  with pd s x mol d doc sv(1) ne show ?thesis
    by (intro exI [of _ x] exI [of _ mol]) simp
qed

theorem main_success_document_witness:
  "\<exists>t1. main (sample_get 200 sample_body) sample_rdkit sample_mongo =
     t1 @ [Print ''Fetched from PubChem:''
             (PDict [(''name'', PStr ''aspirin''), (''smiles'', PStr ''CC(=O)OC1=CC=CC=C1C(=O)O'')]),
           Print ''Descriptors:''
             (PDict [(''MolWt'', PFloat 0x40668516872B020C), (''LogP'', PFloat 0x3FF4F62B6AE7D567),
                     (''NumHDonors'', PInt 1), (''NumHAcceptors'', PInt 3)]),
           Connect ''mongodb://localhost:27017'',
           InsertOne ''science_db'' ''compounds''
             (PDict [(''name'', PStr ''aspirin''), (''smiles'', PStr ''CC(=O)OC1=CC=CC=C1C(=O)O''),
                     (''descriptors'',
                      PDict [(''MolWt'', PFloat 0x40668516872B020C),
                             (''LogP'', PFloat 0x3FF4F62B6AE7D567),
                             (''NumHDonors'', PInt 1), (''NumHAcceptors'', PInt 3)])]),
           Close,
           PrintId saved_message (ObjectId ''65f1c0ffee00'')]"
proof -
  have c: "compute_descriptors sample_rdkit (PStr ''CC(=O)OC1=CC=CC=C1C(=O)O'') =
      Inr (PDict [(''MolWt'', PFloat 0x40668516872B020C), (''LogP'', PFloat 0x3FF4F62B6AE7D567),
                  (''NumHDonors'', PInt 1), (''NumHAcceptors'', PInt 3)])"
    by (simp add: compute_descriptors_def sample_rdkit_def)
  have s: "save_to_mongo sample_mongo
      (PDict [(''name'', PStr ''aspirin''), (''smiles'', PStr ''CC(=O)OC1=CC=CC=C1C(=O)O''),
              (''descriptors'',
               PDict [(''MolWt'', PFloat 0x40668516872B020C),
                      (''LogP'', PFloat 0x3FF4F62B6AE7D567),
                      (''NumHDonors'', PInt 1), (''NumHAcceptors'', PInt 3)])])
      ''science_db'' ''compounds'' =
     (Inr (ObjectId ''65f1c0ffee00''),
      [Connect ''mongodb://localhost:27017'',
       InsertOne ''science_db'' ''compounds''
         (PDict [(''name'', PStr ''aspirin''), (''smiles'', PStr ''CC(=O)OC1=CC=CC=C1C(=O)O''),
                 (''descriptors'',
                  PDict [(''MolWt'', PFloat 0x40668516872B020C),
                         (''LogP'', PFloat 0x3FF4F62B6AE7D567),
                         (''NumHDonors'', PInt 1), (''NumHAcceptors'', PInt 3)])]),
       Close])"
    by (simp add: save_to_mongo_def Let_def sample_mongo_def)
  show ?thesis
    using main_success_document [OF sample_fetch _ c _ s]
    by (auto simp: sample_mongo_def)
qed

end
